theory Spec2Isabelle
  imports Main
begin

section \<open>Strings and run-time values\<close>

text \<open>
  A JavaScript string is a sequence of UTF-16 code units. The model covers the code
  units U+0000 to U+00FF, one \<^typ>\<open>char\<close> each. On that range
  \<open>String.prototype.toLowerCase\<close> works unit by unit: it adds 32 to \<open>A\<close>..\<open>Z\<close>
  (65..90) and to U+00C0..U+00DE except the multiplication sign U+00D7, and keeps
  every other unit. \<open>String.prototype.trim\<close> removes white space and line terminators
  from both ends; below U+0100 these are TAB, LF, VT, FF, CR, SPACE and NBSP.
\<close>

type_synonym jstring = string

definition lower_char :: "char \<Rightarrow> char" where
  "lower_char c =
     (let n = (of_char c :: nat)
      in if (65 \<le> n \<and> n \<le> 90) \<or> (192 \<le> n \<and> n \<le> 222 \<and> n \<noteq> 215)
         then char_of (n + 32) else c)"

definition toLowerCase :: "jstring \<Rightarrow> jstring" where
  "toLowerCase s = map lower_char s"

definition is_white_space :: "char \<Rightarrow> bool" where
  "is_white_space c = (of_char c \<in> {9, 10, 11, 12, 13, 32, 160 :: nat})"

definition trim :: "jstring \<Rightarrow> jstring" where
  "trim s = rev (dropWhile is_white_space (rev (dropWhile is_white_space s)))"

text \<open>
  The decimal rendering of a non-negative integer, as a template literal produces it
  for \<open>response.status\<close> and \<open>Date.now()\<close>.
\<close>

fun decimal :: "nat \<Rightarrow> jstring" where
  "decimal n = (if n < 10 then [char_of (48 + n)]
                else decimal (n div 10) @ [char_of (48 + n mod 10)])"

declare decimal.simps [simp del]

text \<open>
  Values whose type is only known at run time: the arguments that the standalone
  sender tests with \<open>typeof\<close>, and whatever \<open>response.json()\<close> yields. Numbers are
  kept to the integers, which include the falsy \<open>0\<close>.
\<close>

datatype jsval =
    JUndefined
  | JNull
  | JBool bool
  | JNumber int
  | JString jstring
  | JArray "jsval list"
  | JObject "(jstring \<times> jsval) list"

fun truthy :: "jsval \<Rightarrow> bool" where
  "truthy JUndefined = False"
| "truthy JNull = False"
| "truthy (JBool b) = b"
| "truthy (JNumber n) = (n \<noteq> 0)"
| "truthy (JString s) = (s \<noteq> [])"
| "truthy (JArray vs) = True"
| "truthy (JObject kvs) = True"

fun typeof :: "jsval \<Rightarrow> jstring" where
  "typeof JUndefined = ''undefined''"
| "typeof JNull = ''object''"
| "typeof (JBool b) = ''boolean''"
| "typeof (JNumber n) = ''number''"
| "typeof (JString s) = ''string''"
| "typeof (JArray vs) = ''object''"
| "typeof (JObject kvs) = ''object''"

text \<open>After both \<open>typeof\<close> checks have passed, the value is a string.\<close>

fun the_string :: "jsval \<Rightarrow> jstring" where
  "the_string (JString s) = s"
| "the_string v = []"

datatype js_error = Error jstring | TypeError | SyntaxError

text \<open>
  Reading a property \<open>v.k\<close> whose name \<open>k\<close> is not a built-in member (\<open>logID\<close>,
  \<open>token_type\<close>, \<open>access_token\<close>): a \<open>TypeError\<close> on \<open>null\<close> and \<open>undefined\<close>, the
  stored value on an object that has the key, \<open>undefined\<close> otherwise.
\<close>

fun member :: "jsval \<Rightarrow> jstring \<Rightarrow> js_error + jsval" where
  "member JUndefined k = Inl TypeError"
| "member JNull k = Inl TypeError"
| "member (JObject kvs) k = Inr (case map_of kvs k of Some v \<Rightarrow> v | None \<Rightarrow> JUndefined)"
| "member v k = Inr JUndefined"

section \<open>Data model of the logger modules\<close>

record LogRequest =
  stack :: jstring
  level :: jstring
  package :: jstring
  message :: jstring

record AuthCredentials =
  email :: jstring
  name :: jstring
  rollNo :: jstring
  accessCode :: jstring
  clientID :: jstring
  clientSecret :: jstring

definition LogLevel :: "jstring list" where
  "LogLevel = [''debug'', ''info'', ''warn'', ''error'', ''fatal'']"

definition FrontendPackage :: "jstring list" where
  "FrontendPackage = [''api'', ''component'', ''hook'', ''page'', ''state'', ''style'',
     ''auth'', ''config'', ''middleware'', ''utils'']"

definition API_BASE_URL :: jstring where
  "API_BASE_URL = ''http://20.244.56.144/evaluation-service''"

definition AUTH_ENDPOINT :: jstring where
  "AUTH_ENDPOINT = API_BASE_URL @ ''/auth''"

definition LOGS_ENDPOINT :: jstring where
  "LOGS_ENDPOINT = API_BASE_URL @ ''/logs''"

section \<open>The network and the console\<close>

text \<open>
  \<open>fetch\<close> is the only way out of the program. A request carries the value handed to
  \<open>JSON.stringify\<close>; a response carries its status, its body as text and, when the text
  is JSON, the value \<open>response.json()\<close> resolves to. The remote side is a function of
  the requests sent so far and of the current one, so that two equal requests may be
  answered differently. \<open>fetch\<close> rejects with a \<open>TypeError\<close> when no response arrives.
\<close>

datatype request_body =
    LogRequest_body LogRequest
  | AuthCredentials_body AuthCredentials

record http_request =
  url :: jstring
  method' :: jstring
  headers :: "(jstring \<times> jstring) list"
  body :: request_body

record http_response =
  status :: nat
  body_text :: jstring
  body_json :: "jsval option"

datatype fetch_outcome = Rejected | Resolved http_response

type_synonym network = "http_request list \<Rightarrow> http_request \<Rightarrow> fetch_outcome"

text \<open>
  The lines written by \<open>console.log\<close> and \<open>console.error\<close>, by the fixed text of
  the line; the argument is the value printed after it.
\<close>

datatype console_entry =
    Log_sent_successfully jsval
  | Failed_to_send_log js_error
  | Failed_to_send_log_to_server js_error
  | Authentication_successful
  | Authentication_failed js_error

record world =
  sent :: "http_request list"
  console :: "console_entry list"

definition fetch :: "network \<Rightarrow> http_request \<Rightarrow> world \<Rightarrow> (js_error + http_response) \<times> world" where
  "fetch net req w =
     ((case net (sent w) req of Rejected \<Rightarrow> Inl TypeError | Resolved r \<Rightarrow> Inr r),
      w\<lparr>sent := sent w @ [req]\<rparr>)"

definition ok :: "http_response \<Rightarrow> bool" where
  "ok response = (200 \<le> status response \<and> status response \<le> 299)"

definition response_json :: "http_response \<Rightarrow> js_error + jsval" where
  "response_json response =
     (case body_json response of None \<Rightarrow> Inl SyntaxError | Some v \<Rightarrow> Inr v)"

definition console_write :: "console_entry \<Rightarrow> world \<Rightarrow> world" where
  "console_write line w = w\<lparr>console := console w @ [line]\<rparr>"

section \<open>The logger used by the demo UI\<close>

text \<open>
  \<open>logToServer\<close>, \<open>authenticate\<close> and \<open>createLogger\<close> of the module the demo UI
  imports. Each function is the body of its \<open>try\<close> block followed by the \<open>catch\<close>
  handler, which writes the error to the console and throws it again.
\<close>

definition logs_POST :: "jstring \<Rightarrow> LogRequest \<Rightarrow> http_request" where
  "logs_POST token logRequest =
     \<lparr>url = LOGS_ENDPOINT, method' = ''POST'',
      headers = [(''Content-Type'', ''application/json''),
                 (''Authorization'', ''Bearer '' @ token)],
      body = LogRequest_body logRequest\<rparr>"

definition logToServer_try ::
  "network \<Rightarrow> jstring \<Rightarrow> LogRequest \<Rightarrow> world \<Rightarrow> (js_error + jsval) \<times> world" where
  "logToServer_try net token logRequest w =
     (case fetch net (logs_POST token logRequest) w of
        (Inl e, w1) \<Rightarrow> (Inl e, w1)
      | (Inr response, w1) \<Rightarrow>
          if \<not> ok response
          then (Inl (Error (''HTTP error! status: '' @ decimal (status response))), w1)
          else (case response_json response of
                  Inl e \<Rightarrow> (Inl e, w1)
                | Inr logResponse \<Rightarrow>
                    (case member logResponse ''logID'' of
                       Inl e \<Rightarrow> (Inl e, w1)
                     | Inr logID \<Rightarrow>
                         (Inr logResponse, console_write (Log_sent_successfully logID) w1))))"

definition logToServer ::
  "network \<Rightarrow> jstring \<Rightarrow> jstring \<Rightarrow> jstring \<Rightarrow> jstring \<Rightarrow> world
     \<Rightarrow> (js_error + jsval) \<times> world" where
  "logToServer net token lvl pkg msg w =
     (let logRequest = \<lparr>stack = ''frontend'', level = toLowerCase lvl,
                         package = toLowerCase pkg, message = msg\<rparr>
      in case logToServer_try net token logRequest w of
           (Inl err, w1) \<Rightarrow> (Inl err, console_write (Failed_to_send_log err) w1)
         | (Inr logResponse, w1) \<Rightarrow> (Inr logResponse, w1))"

definition auth_POST :: "AuthCredentials \<Rightarrow> http_request" where
  "auth_POST credentials =
     \<lparr>url = AUTH_ENDPOINT, method' = ''POST'',
      headers = [(''Content-Type'', ''application/json'')],
      body = AuthCredentials_body credentials\<rparr>"

definition authenticate_try ::
  "network \<Rightarrow> AuthCredentials \<Rightarrow> world \<Rightarrow> (js_error + jsval) \<times> world" where
  "authenticate_try net credentials w =
     (case fetch net (auth_POST credentials) w of
        (Inl e, w1) \<Rightarrow> (Inl e, w1)
      | (Inr response, w1) \<Rightarrow>
          if \<not> ok response
          then (Inl (Error (''Authentication failed! status: '' @ decimal (status response))), w1)
          else (case response_json response of
                  Inl e \<Rightarrow> (Inl e, w1)
                | Inr authResponse \<Rightarrow>
                    (Inr authResponse, console_write Authentication_successful w1)))"

definition authenticate ::
  "network \<Rightarrow> AuthCredentials \<Rightarrow> world \<Rightarrow> (js_error + jsval) \<times> world" where
  "authenticate net credentials w =
     (case authenticate_try net credentials w of
        (Inl err, w1) \<Rightarrow> (Inl err, console_write (Authentication_failed err) w1)
      | (Inr authResponse, w1) \<Rightarrow> (Inr authResponse, w1))"

record 'f Logger =
  debug :: 'f
  info :: 'f
  warn :: 'f
  error :: 'f
  fatal :: 'f

definition createLogger ::
  "network \<Rightarrow> jstring
     \<Rightarrow> (jstring \<Rightarrow> jstring \<Rightarrow> world \<Rightarrow> (js_error + jsval) \<times> world) Logger" where
  "createLogger net token =
     \<lparr>debug = (\<lambda>pkg msg. logToServer net token ''debug'' pkg msg),
      info = (\<lambda>pkg msg. logToServer net token ''info'' pkg msg),
      warn = (\<lambda>pkg msg. logToServer net token ''warn'' pkg msg),
      error = (\<lambda>pkg msg. logToServer net token ''error'' pkg msg),
      fatal = (\<lambda>pkg msg. logToServer net token ''fatal'' pkg msg)\<rparr>"

section \<open>The standalone logger\<close>

text \<open>
  The starter-code module. Its \<open>logToServer\<close> tests the token and the message before
  anything else, outside the \<open>try\<close> block, and trims the message; on a failed request
  it reads the response text into the error.
\<close>

definition logToServer_standalone_try ::
  "network \<Rightarrow> jstring \<Rightarrow> LogRequest \<Rightarrow> world \<Rightarrow> (js_error + jsval) \<times> world" where
  "logToServer_standalone_try net token logRequest w =
     (case fetch net (logs_POST token logRequest) w of
        (Inl e, w1) \<Rightarrow> (Inl e, w1)
      | (Inr response, w1) \<Rightarrow>
          if \<not> ok response
          then (let errorText = body_text response
                in (Inl (Error (''HTTP '' @ decimal (status response) @ '': '' @ errorText)), w1))
          else (case response_json response of
                  Inl e \<Rightarrow> (Inl e, w1)
                | Inr logResponse \<Rightarrow>
                    (case member logResponse ''logID'' of
                       Inl e \<Rightarrow> (Inl e, w1)
                     | Inr logID \<Rightarrow>
                         (Inr logResponse, console_write (Log_sent_successfully logID) w1))))"

definition logToServer_standalone ::
  "network \<Rightarrow> jsval \<Rightarrow> jstring \<Rightarrow> jstring \<Rightarrow> jsval \<Rightarrow> world
     \<Rightarrow> (js_error + jsval) \<times> world" where
  "logToServer_standalone net token lvl pkg msg w =
     (if \<not> truthy token \<or> typeof token \<noteq> ''string''
      then (Inl (Error ''Valid bearer token is required''), w)
      else if \<not> truthy msg \<or> typeof msg \<noteq> ''string''
      then (Inl (Error ''Log message is required''), w)
      else
        let logRequest = \<lparr>stack = ''frontend'', level = toLowerCase lvl,
                           package = toLowerCase pkg, message = trim (the_string msg)\<rparr>
        in case logToServer_standalone_try net (the_string token) logRequest w of
             (Inl err, w1) \<Rightarrow>
               (Inl err, console_write (Failed_to_send_log_to_server err) w1)
           | (Inr logResponse, w1) \<Rightarrow> (Inr logResponse, w1))"

definition createLogger_standalone ::
  "network \<Rightarrow> jsval
     \<Rightarrow> (jstring \<Rightarrow> jsval \<Rightarrow> world \<Rightarrow> (js_error + jsval) \<times> world) Logger" where
  "createLogger_standalone net token =
     \<lparr>debug = (\<lambda>pkg msg. logToServer_standalone net token ''debug'' pkg msg),
      info = (\<lambda>pkg msg. logToServer_standalone net token ''info'' pkg msg),
      warn = (\<lambda>pkg msg. logToServer_standalone net token ''warn'' pkg msg),
      error = (\<lambda>pkg msg. logToServer_standalone net token ''error'' pkg msg),
      fatal = (\<lambda>pkg msg. logToServer_standalone net token ''fatal'' pkg msg)\<rparr>"

section \<open>The demo UI\<close>

text \<open>
  The \<open>LoggingDemo\<close> component: its state (the retained log list and the loading
  key), the notices it hands to \<open>toast\<close>, and \<open>sendLog\<close>. \<open>setLogs\<close> is called with an
  updater function, so it acts on the list as it is at that moment. The token is a
  property of the component, a string or \<open>null\<close>. The clock gives \<open>Date.now()\<close> and
  the text of \<open>new Date().toLocaleTimeString()\<close>.
\<close>

record LogEntry =
  id' :: jsval
  timestamp :: jstring
  level :: jstring
  package :: jstring
  message :: jstring
  status :: jstring

datatype toast =
    No_Authentication_Token
  | Log_Sent_Successfully jstring
  | Log_Failed

record ui_state =
  logs :: "LogEntry list"
  isLoading :: "jstring option"
  toasts :: "toast list"

record clock =
  now :: nat
  toLocaleTimeString :: jstring

definition sendLog_try ::
  "network \<Rightarrow> clock \<Rightarrow> jstring \<Rightarrow> jstring \<Rightarrow> jstring \<Rightarrow> jstring \<Rightarrow> ui_state \<Rightarrow> world
     \<Rightarrow> (js_error + ui_state) \<times> world" where
  "sendLog_try net clk token lvl pkg msg ui w =
     (case logToServer net token lvl pkg msg w of
        (Inl e, w1) \<Rightarrow> (Inl e, w1)
      | (Inr response, w1) \<Rightarrow>
          (case member response ''logID'' of
             Inl e \<Rightarrow> (Inl e, w1)
           | Inr logID \<Rightarrow>
               let newLog = \<lparr>id' = logID, timestamp = toLocaleTimeString clk,
                             level = lvl, package = pkg, message = msg,
                             status = ''success''\<rparr>
               in (Inr (ui\<lparr>logs := take 10 (newLog # logs ui),
                           toasts := toasts ui @ [Log_Sent_Successfully lvl]\<rparr>), w1)))"

definition sendLog ::
  "network \<Rightarrow> clock \<Rightarrow> jstring option \<Rightarrow> jstring \<Rightarrow> jstring \<Rightarrow> jstring
     \<Rightarrow> ui_state \<times> world \<Rightarrow> ui_state \<times> world" where
  "sendLog net clk token lvl pkg msg s =
     (case s of (ui, w) \<Rightarrow>
        if token = None \<or> token = Some []
        then (ui\<lparr>toasts := toasts ui @ [No_Authentication_Token]\<rparr>, w)
        else
          let logKey = lvl @ ''-'' @ pkg;
              ui1 = ui\<lparr>isLoading := Some logKey\<rparr>;
              (ui2, w2) =
                (case sendLog_try net clk (the token) lvl pkg msg ui1 w of
                   (Inr ui', w1) \<Rightarrow> (ui', w1)
                 | (Inl err, w1) \<Rightarrow>
                     let newLog = \<lparr>id' = JString (''error-'' @ decimal (now clk)),
                                   timestamp = toLocaleTimeString clk,
                                   level = lvl, package = pkg, message = msg,
                                   status = ''error''\<rparr>
                     in (ui1\<lparr>logs := take 10 (newLog # logs ui1),
                             toasts := toasts ui1 @ [Log_Failed]\<rparr>, w1))
          in (ui2\<lparr>isLoading := None\<rparr>, w2))"

text \<open>
  The component starts with an empty list and no loading key. A session is a
  sequence of \<open>sendLog\<close> calls, each with the token and clock of its moment.
\<close>

definition initial_ui :: ui_state where
  "initial_ui = \<lparr>logs = [], isLoading = None, toasts = []\<rparr>"

type_synonym sendLog_call = "clock \<times> jstring option \<times> jstring \<times> jstring \<times> jstring"

fun sendLog_calls :: "network \<Rightarrow> sendLog_call list \<Rightarrow> ui_state \<times> world \<Rightarrow> ui_state \<times> world" where
  "sendLog_calls net [] s = s"
| "sendLog_calls net ((clk, token, lvl, pkg, msg) # calls) s =
     sendLog_calls net calls (sendLog net clk token lvl pkg msg s)"

section \<open>Vocabulary of the properties\<close>

text \<open>A value that passes the standalone sender's test: a string that is not empty.\<close>

fun nonempty_string :: "jsval \<Rightarrow> bool" where
  "nonempty_string (JString s) = (s \<noteq> [])"
| "nonempty_string v = False"

text \<open>
  The invariant the specification states for an outbound Log Record: severity and
  category in their enumerations, message not empty.
\<close>

definition Log_Record_invariant :: "LogRequest \<Rightarrow> bool" where
  "Log_Record_invariant r =
     (LogRequest.level r \<in> set LogLevel \<and> LogRequest.package r \<in> set FrontendPackage
      \<and> LogRequest.message r \<noteq> [])"

text \<open>Environments and inputs on which the theorems below are instantiated.\<close>

definition empty_world :: world where
  "empty_world = \<lparr>sent = [], console = []\<rparr>"

definition server_401 :: network where
  "server_401 = (\<lambda>history req.
     Resolved \<lparr>http_response.status = 401, body_text = ''Unauthorized'', body_json = None\<rparr>)"

definition server_200 :: network where
  "server_200 = (\<lambda>history req.
     Resolved \<lparr>http_response.status = 200, body_text = [],
       body_json = Some (JObject [(''logID'', JString ''a1b2''), (''message'', JString ''log created'')])\<rparr>)"

definition auth_server :: network where
  "auth_server = (\<lambda>history req.
     Resolved \<lparr>http_response.status = 200, body_text = [],
       body_json = Some (JObject [(''token_type'', JString ''Bearer''),
         (''access_token'', JString (if history = [] then ''first'' else ''second'')),
         (''expires_in'', JNumber 3600)])\<rparr>)"

definition credentials0 :: AuthCredentials where
  "credentials0 = \<lparr>email = ''a@b.c'', name = ''A'', rollNo = ''1'', accessCode = ''x'',
     clientID = ''id'', clientSecret = ''s''\<rparr>"

definition old_entry :: "jstring \<Rightarrow> LogEntry" where
  "old_entry i = \<lparr>id' = JString i, timestamp = ''09:00:00'', level = ''info'',
     package = ''page'', message = ''ready'', status = ''success''\<rparr>"

definition ten_logs :: "LogEntry list" where
  "ten_logs = map old_entry [''j'', ''i'', ''h'', ''g'', ''f'', ''e'', ''d'', ''c'', ''b'', ''a'']"

definition clock0 :: clock where
  "clock0 = \<lparr>now = 17, toLocaleTimeString = ''10:00:00''\<rparr>"

section \<open>What each call sends and returns\<close>

lemma validation_check:
  "(\<not> truthy v \<or> typeof v \<noteq> ''string'') = (\<not> nonempty_string v)"
  by (cases v) auto

lemma nonempty_stringE:
  "nonempty_string v \<Longrightarrow> \<exists>s. v = JString s \<and> s \<noteq> []"
  by (cases v) auto

subsection \<open>The UI-bound sender\<close>

lemma logToServer_try_sent:
  "sent (snd (logToServer_try net token r w)) = sent w @ [logs_POST token r]"
  by (simp add: logToServer_try_def fetch_def console_write_def
           split: fetch_outcome.splits sum.splits)

lemma logToServer_try_fst:
  "fst (logToServer_try net token R w) =
     (case net (sent w) (logs_POST token R) of
        Rejected \<Rightarrow> Inl TypeError
      | Resolved r \<Rightarrow>
          if \<not> ok r then Inl (Error (''HTTP error! status: '' @ decimal (http_response.status r)))
          else (case body_json r of
                  None \<Rightarrow> Inl SyntaxError
                | Some j \<Rightarrow> (case member j ''logID'' of Inl e \<Rightarrow> Inl e | Inr v \<Rightarrow> Inr j)))"
  by (simp add: logToServer_try_def fetch_def response_json_def
           split: fetch_outcome.splits sum.splits option.splits)

lemma logToServer_fst:
  "fst (logToServer net token lvl pkg msg w) =
     fst (logToServer_try net token
            \<lparr>stack = ''frontend'', LogRequest.level = toLowerCase lvl,
               LogRequest.package = toLowerCase pkg, LogRequest.message = msg\<rparr> w)"
  by (simp add: logToServer_def split: prod.splits sum.splits)

lemma logToServer_sent:
  "sent (snd (logToServer net token lvl pkg msg w)) =
     sent w @ [logs_POST token
        \<lparr>stack = ''frontend'', LogRequest.level = toLowerCase lvl,
           LogRequest.package = toLowerCase pkg, LogRequest.message = msg\<rparr>]"
proof -
  let ?R = "\<lparr>stack = ''frontend'', LogRequest.level = toLowerCase lvl,
              LogRequest.package = toLowerCase pkg, LogRequest.message = msg\<rparr>"
  obtain res w1 where tr: "logToServer_try net token ?R w = (res, w1)"
    by (cases "logToServer_try net token ?R w")
  then have "sent w1 = sent w @ [logs_POST token ?R]"
    using logToServer_try_sent [of net token ?R w] by simp
  with tr show ?thesis
    by (cases res) (simp_all add: logToServer_def console_write_def)
qed

subsection \<open>The standalone sender\<close>

lemma logToServer_standalone_try_sent:
  "sent (snd (logToServer_standalone_try net token r w)) = sent w @ [logs_POST token r]"
  by (simp add: logToServer_standalone_try_def fetch_def console_write_def
           split: fetch_outcome.splits sum.splits)

lemma logToServer_standalone_try_fst:
  "fst (logToServer_standalone_try net token R w) =
     (case net (sent w) (logs_POST token R) of
        Rejected \<Rightarrow> Inl TypeError
      | Resolved r \<Rightarrow>
          if \<not> ok r
          then Inl (Error (''HTTP '' @ decimal (http_response.status r) @ '': '' @ body_text r))
          else (case body_json r of
                  None \<Rightarrow> Inl SyntaxError
                | Some j \<Rightarrow> (case member j ''logID'' of Inl e \<Rightarrow> Inl e | Inr v \<Rightarrow> Inr j)))"
  by (simp add: logToServer_standalone_try_def fetch_def response_json_def
           split: fetch_outcome.splits sum.splits option.splits)

lemma logToServer_standalone_invalid:
  "\<not> nonempty_string token \<or> \<not> nonempty_string msg \<Longrightarrow>
   logToServer_standalone net token lvl pkg msg w =
     (Inl (Error (if \<not> nonempty_string token then ''Valid bearer token is required''
                  else ''Log message is required'')), w)"
  using validation_check [of token] validation_check [of msg]
  by (auto simp add: logToServer_standalone_def)

lemma logToServer_standalone_valid_fst:
  "t \<noteq> [] \<Longrightarrow> m \<noteq> [] \<Longrightarrow>
   fst (logToServer_standalone net (JString t) lvl pkg (JString m) w) =
     fst (logToServer_standalone_try net t
            \<lparr>stack = ''frontend'', LogRequest.level = toLowerCase lvl,
               LogRequest.package = toLowerCase pkg, LogRequest.message = trim m\<rparr> w)"
  by (simp add: logToServer_standalone_def split: prod.splits sum.splits)

lemma logToServer_standalone_valid_sent:
  "t \<noteq> [] \<Longrightarrow> m \<noteq> [] \<Longrightarrow>
   sent (snd (logToServer_standalone net (JString t) lvl pkg (JString m) w)) =
     sent w @ [logs_POST t
        \<lparr>stack = ''frontend'', LogRequest.level = toLowerCase lvl,
           LogRequest.package = toLowerCase pkg, LogRequest.message = trim m\<rparr>]"
proof -
  assume ne: "t \<noteq> []" "m \<noteq> []"
  let ?R = "\<lparr>stack = ''frontend'', LogRequest.level = toLowerCase lvl,
              LogRequest.package = toLowerCase pkg, LogRequest.message = trim m\<rparr>"
  obtain res w1 where tr: "logToServer_standalone_try net t ?R w = (res, w1)"
    by (cases "logToServer_standalone_try net t ?R w")
  then have "sent w1 = sent w @ [logs_POST t ?R]"
    using logToServer_standalone_try_sent [of net t ?R w] by simp
  with tr ne show ?thesis
    by (cases res) (simp_all add: logToServer_standalone_def console_write_def)
qed

subsection \<open>The authenticator\<close>

lemma authenticate_sent:
  "sent (snd (authenticate net c w)) = sent w @ [auth_POST c]"
  by (simp add: authenticate_def authenticate_try_def fetch_def console_write_def
           split: fetch_outcome.splits sum.splits prod.splits)

lemma authenticate_fst:
  "fst (authenticate net c w) =
     (case net (sent w) (auth_POST c) of
        Rejected \<Rightarrow> Inl TypeError
      | Resolved r \<Rightarrow>
          if \<not> ok r
          then Inl (Error (''Authentication failed! status: '' @ decimal (http_response.status r)))
          else (case body_json r of None \<Rightarrow> Inl SyntaxError | Some j \<Rightarrow> Inr j))"
  by (simp add: authenticate_def authenticate_try_def fetch_def response_json_def
           split: fetch_outcome.splits sum.splits option.splits prod.splits)

section \<open>Evaluation of the string functions\<close>

lemma lower_examples:
  "toLowerCase ''ERROR'' = ''error''" "toLowerCase ''API'' = ''api''"
  by (simp_all add: toLowerCase_def lower_char_def char_of_def bit_iff_odd)

lemma decimal_examples:
  "decimal 401 = ''401''" "decimal 200 = ''200''"
  by (simp_all add: decimal.simps char_of_def bit_iff_odd)

section \<open>Trimming\<close>

lemma dropWhile_snoc_keep:
  "\<not> P x \<Longrightarrow> dropWhile P (ys @ [x]) = dropWhile P ys @ [x]"
  by (induction ys) auto

lemma trim_head:
  "trim s = [] \<or> \<not> is_white_space (hd (trim s))"
proof (cases "dropWhile is_white_space s")
  case Nil
  have "trim s = rev (dropWhile is_white_space (rev (dropWhile is_white_space s)))"
    by (rule trim_def)
  also have "\<dots> = []" by (simp only: Nil rev.simps dropWhile.simps)
  finally show ?thesis by simp
next
  case (Cons x xs)
  then have "\<not> is_white_space x"
    by (metis hd_dropWhile list.distinct(1) list.sel(1))
  then have "rev (dropWhile is_white_space (rev (x # xs)))
      = x # rev (dropWhile is_white_space (rev xs))"
    by (simp add: dropWhile_snoc_keep)
  with Cons \<open>\<not> is_white_space x\<close> show ?thesis unfolding trim_def by simp
qed

lemma trim_last:
  "dropWhile is_white_space (rev (trim s)) = rev (trim s)"
  by (simp add: trim_def)

lemma trim_idem: "trim (trim s) = trim s"
proof -
  have "dropWhile is_white_space (trim s) = trim s"
    using trim_head [of s] by (cases "trim s") auto
  then show ?thesis
    using trim_last [of s] by (simp add: trim_def [of "trim s"])
qed

lemma trim_nonempty: "trim m \<noteq> [] \<Longrightarrow> m \<noteq> []"
  by (auto simp add: trim_def)

lemma trim_examples:
  "trim ''  hello  '' = ''hello''" "trim ''hello'' = ''hello''" "trim ''  '' = []"
  by (simp_all add: trim_def is_white_space_def)

section \<open>What \<open>sendLog\<close> does to the retained list\<close>

lemma logToServer_Inr_member:
  "fst (logToServer net token lvl pkg msg w) = Inr resp \<Longrightarrow> \<exists>v. member resp ''logID'' = Inr v"
  by (auto simp add: logToServer_fst logToServer_try_fst
        split: fetch_outcome.splits if_splits option.splits sum.splits)

lemma sendLog_failure:
  assumes "token \<noteq> []" and "fst (logToServer net token lvl pkg msg w) = Inl e"
  shows "sendLog net clk (Some token) lvl pkg msg (ui, w) =
     (ui\<lparr>logs := take 10 (\<lparr>id' = JString (''error-'' @ decimal (now clk)),
              timestamp = toLocaleTimeString clk, level = lvl, package = pkg,
              message = msg, status = ''error''\<rparr> # logs ui),
          toasts := toasts ui @ [Log_Failed], isLoading := None\<rparr>,
      snd (logToServer net token lvl pkg msg w))"
proof -
  obtain res w1 where l: "logToServer net token lvl pkg msg w = (res, w1)"
    by (cases "logToServer net token lvl pkg msg w")
  with assms(2) have "res = Inl e" by simp
  with l assms(1) show ?thesis
    by (simp add: sendLog_def sendLog_try_def)
qed

lemma sendLog_success:
  assumes "token \<noteq> []" and "fst (logToServer net token lvl pkg msg w) = Inr resp"
    and "member resp ''logID'' = Inr v"
  shows "sendLog net clk (Some token) lvl pkg msg (ui, w) =
     (ui\<lparr>logs := take 10 (\<lparr>id' = v, timestamp = toLocaleTimeString clk, level = lvl,
              package = pkg, message = msg, status = ''success''\<rparr> # logs ui),
          toasts := toasts ui @ [Log_Sent_Successfully lvl], isLoading := None\<rparr>,
      snd (logToServer net token lvl pkg msg w))"
proof -
  obtain res w1 where l: "logToServer net token lvl pkg msg w = (res, w1)"
    by (cases "logToServer net token lvl pkg msg w")
  with assms(2) have "res = Inr resp" by simp
  with l assms(1,3) show ?thesis
    by (simp add: sendLog_def sendLog_try_def)
qed

lemma sendLog_entry:
  assumes "token \<noteq> []"
  shows "\<exists>e. logs (fst (sendLog net clk (Some token) lvl pkg msg (ui, w))) = e # take 9 (logs ui)
     \<and> LogEntry.level e = lvl \<and> LogEntry.package e = pkg \<and> LogEntry.message e = msg
     \<and> (status e = ''success'' \<or> status e = ''error'')"
proof (cases "fst (logToServer net token lvl pkg msg w)")
  case (Inl e)
  show ?thesis
    by (simp add: sendLog_failure [OF assms Inl])
next
  case (Inr resp)
  then obtain v where "member resp ''logID'' = Inr v"
    using logToServer_Inr_member by blast
  with Inr show ?thesis
    by (simp add: sendLog_success [OF assms Inr])
qed

lemma sendLog_cap:
  "length (logs (fst s)) \<le> 10 \<Longrightarrow>
   length (logs (fst (sendLog net clk token lvl pkg msg s))) \<le> 10"
proof (cases s)
  case (Pair ui w)
  assume le: "length (logs (fst s)) \<le> 10"
  show ?thesis
  proof (cases "token = None \<or> token = Some []")
    case True
    with Pair le show ?thesis by (auto simp add: sendLog_def)
  next
    case False
    then obtain t where "token = Some t" "t \<noteq> []" by auto
    with Pair sendLog_entry [of t net clk lvl pkg msg ui w] show ?thesis by auto
  qed
qed

lemma sendLog_calls_cap:
  "length (logs (fst s)) \<le> 10 \<Longrightarrow> length (logs (fst (sendLog_calls net calls s))) \<le> 10"
proof (induction calls arbitrary: s)
  case Nil
  then show ?case by simp
next
  case (Cons call calls)
  obtain clk token lvl pkg msg where "call = (clk, token, lvl, pkg, msg)"
    by (cases call)
  with Cons show ?case by (simp add: sendLog_cap)
qed

section \<open>The enumerations are in lower case\<close>

lemma LogLevel_lower: "e \<in> set LogLevel \<Longrightarrow> toLowerCase e = e"
  by (auto simp add: LogLevel_def toLowerCase_def lower_char_def)

lemma FrontendPackage_lower: "e \<in> set FrontendPackage \<Longrightarrow> toLowerCase e = e"
  by (auto simp add: FrontendPackage_def toLowerCase_def lower_char_def)

section \<open>A record is its four fields\<close>

lemma LogRequest_fields:
  "stack r = a \<Longrightarrow> LogRequest.level r = b \<Longrightarrow> LogRequest.package r = c \<Longrightarrow>
   LogRequest.message r = d \<Longrightarrow>
   r = \<lparr>stack = a, LogRequest.level = b, LogRequest.package = c, LogRequest.message = d\<rparr>"
  by (cases r) simp

section \<open>The claims\<close>

text \<open>
  Claim C1. Every call of \<open>logToServer\<close>, in either module, sends a payload whose
  \<open>stack\<close> is \<open>frontend\<close> and whose \<open>level\<close> and \<open>package\<close> are the lower-case
  forms of the level and package it was given, whatever their casing. The request is
  written out: a POST to the logs endpoint with the two headers and that record as its
  body. The UI-bound sender issues exactly that one request; the standalone sender
  issues it when the token and the message pass its test, and issues nothing otherwise.
\<close>

theorem C1_payload_normalised:
  "sent (snd (logToServer net token lvl pkg msg w)) =
     sent w @ [\<lparr>url = LOGS_ENDPOINT, method' = ''POST'',
        headers = [(''Content-Type'', ''application/json''),
                   (''Authorization'', ''Bearer '' @ token)],
        body = LogRequest_body
          \<lparr>stack = ''frontend'', LogRequest.level = toLowerCase lvl,
             LogRequest.package = toLowerCase pkg, LogRequest.message = msg\<rparr>\<rparr>]
   \<and> sent (snd (logToServer_standalone net tok lvl pkg m w)) =
     sent w @ (if nonempty_string tok \<and> nonempty_string m
               then [\<lparr>url = LOGS_ENDPOINT, method' = ''POST'',
                      headers = [(''Content-Type'', ''application/json''),
                                 (''Authorization'', ''Bearer '' @ the_string tok)],
                      body = LogRequest_body
                        \<lparr>stack = ''frontend'', LogRequest.level = toLowerCase lvl,
                           LogRequest.package = toLowerCase pkg,
                           LogRequest.message = trim (the_string m)\<rparr>\<rparr>]
               else [])"
proof (cases "nonempty_string tok \<and> nonempty_string m")
  case True
  then obtain t s where "tok = JString t" "t \<noteq> []" "m = JString s" "s \<noteq> []"
    by (meson nonempty_stringE)
  then show ?thesis
    by (simp add: logToServer_sent logToServer_standalone_valid_sent logs_POST_def)
next
  case False
  then show ?thesis
    using logToServer_standalone_invalid [of tok m net lvl pkg w]
    by (simp add: logToServer_sent logs_POST_def)
qed

text \<open>The level \<open>ERROR\<close> and the package \<open>API\<close> go out as \<open>error\<close> and \<open>api\<close>.\<close>

theorem C1_payload_normalised_witness:
  "map body (sent (snd (logToServer server_401 ''tok'' ''ERROR'' ''API'' ''Hi'' empty_world))) =
     [LogRequest_body \<lparr>stack = ''frontend'', LogRequest.level = ''error'',
        LogRequest.package = ''api'', LogRequest.message = ''Hi''\<rparr>]
   \<and> map body (sent (snd (logToServer_standalone server_401 (JString ''tok'') ''ERROR'' ''API''
                  (JString ''Hi'') empty_world))) =
     [LogRequest_body \<lparr>stack = ''frontend'', LogRequest.level = ''error'',
        LogRequest.package = ''api'', LogRequest.message = ''Hi''\<rparr>]
   \<and> map headers (sent (snd (logToServer server_401 ''tok'' ''ERROR'' ''API'' ''Hi''
        empty_world))) =
     [[(''Content-Type'', ''application/json''), (''Authorization'', ''Bearer tok'')]]"
  using C1_payload_normalised [of server_401 "''tok''" "''ERROR''" "''API''" "''Hi''"
      empty_world "JString ''tok''" "JString ''Hi''"]
  by (simp add: lower_examples empty_world_def trim_def is_white_space_def)

text \<open>
  Claim C2. \<open>authenticate\<close> sends one POST whose body is the credentials. A
  response with a non-success status makes it fail with the error whose text carries
  the status. A 2xx response with a JSON body makes it return that body as it is: for
  a body of the declared \<open>AuthResponse\<close> form the returned token type is \<open>Bearer\<close> and
  the returned access token is the one in the body. Nothing is cached: a second call
  sends a second request and returns what the remote side answers to that one.
\<close>

theorem C2_authenticate:
  "sent (snd (authenticate net c w)) = sent w @ [auth_POST c]
   \<and> method' (auth_POST c) = ''POST'' \<and> body (auth_POST c) = AuthCredentials_body c
   \<and> (net (sent w) (auth_POST c) = Resolved r \<and> \<not> ok r \<longrightarrow>
        fst (authenticate net c w) =
          Inl (Error (''Authentication failed! status: '' @ decimal (http_response.status r))))
   \<and> (net (sent w) (auth_POST c) = Resolved r \<and> ok r \<and> body_json r = Some j \<longrightarrow>
        fst (authenticate net c w) = Inr j)
   \<and> (net (sent w) (auth_POST c) = Resolved r \<and> ok r \<and> body_json r = Some (JObject kvs)
        \<and> map_of kvs ''token_type'' = Some (JString ''Bearer'')
        \<and> map_of kvs ''access_token'' = Some access_token \<longrightarrow>
        (\<exists>v. fst (authenticate net c w) = Inr v
           \<and> member v ''token_type'' = Inr (JString ''Bearer'')
           \<and> member v ''access_token'' = Inr access_token))
   \<and> sent (snd (authenticate net c (snd (authenticate net c w)))) =
        sent w @ [auth_POST c, auth_POST c]
   \<and> (net (sent w @ [auth_POST c]) (auth_POST c) = Resolved r' \<and> ok r'
        \<and> body_json r' = Some j' \<longrightarrow>
        fst (authenticate net c (snd (authenticate net c w))) = Inr j')"
proof -
  have second: "fst (authenticate net c (snd (authenticate net c w))) =
      (case net (sent w @ [auth_POST c]) (auth_POST c) of
         Rejected \<Rightarrow> Inl TypeError
       | Resolved r \<Rightarrow>
           if \<not> ok r
           then Inl (Error (''Authentication failed! status: '' @ decimal (http_response.status r)))
           else (case body_json r of None \<Rightarrow> Inl SyntaxError | Some j \<Rightarrow> Inr j))"
    by (simp add: authenticate_fst [of net c "snd (authenticate net c w)"] authenticate_sent)
  show ?thesis
    by (simp add: authenticate_sent authenticate_fst second auth_POST_def)
qed

text \<open>
  A 401 gives the error with \<open>401\<close> in its text; a remote side that hands out
  \<open>first\<close> and then \<open>second\<close> is asked twice and the second call returns \<open>second\<close>.
\<close>

theorem C2_authenticate_witness:
  "fst (authenticate server_401 credentials0 empty_world) =
     Inl (Error ''Authentication failed! status: 401'')
   \<and> sent (snd (authenticate server_401 credentials0 empty_world)) = [auth_POST credentials0]
   \<and> (\<exists>v. fst (authenticate auth_server credentials0 empty_world) = Inr v
         \<and> member v ''token_type'' = Inr (JString ''Bearer'')
         \<and> member v ''access_token'' = Inr (JString ''first''))
   \<and> (\<exists>v. fst (authenticate auth_server credentials0
                 (snd (authenticate auth_server credentials0 empty_world))) = Inr v
         \<and> member v ''access_token'' = Inr (JString ''second''))"
proof -
  let ?r = "\<lparr>http_response.status = 401, body_text = ''Unauthorized'', body_json = None\<rparr>"
  let ?kvs = "\<lambda>t. [(''token_type'', JString ''Bearer''), (''access_token'', JString t),
                    (''expires_in'', JNumber 3600)]"
  let ?a = "\<lambda>t. \<lparr>http_response.status = 200, body_text = [], body_json = Some (JObject (?kvs t))\<rparr>"
  have fail: "server_401 (sent empty_world) (auth_POST credentials0) = Resolved ?r \<and> \<not> ok ?r"
    by (simp add: server_401_def ok_def)
  have one: "auth_server (sent empty_world) (auth_POST credentials0) = Resolved (?a ''first'')
      \<and> ok (?a ''first'') \<and> body_json (?a ''first'') = Some (JObject (?kvs ''first''))
      \<and> map_of (?kvs ''first'') ''token_type'' = Some (JString ''Bearer'')
      \<and> map_of (?kvs ''first'') ''access_token'' = Some (JString ''first'')"
    by (simp add: auth_server_def ok_def empty_world_def)
  have two: "auth_server (sent empty_world @ [auth_POST credentials0]) (auth_POST credentials0)
        = Resolved (?a ''second'')
      \<and> ok (?a ''second'') \<and> body_json (?a ''second'') = Some (JObject (?kvs ''second''))"
    by (simp add: auth_server_def ok_def empty_world_def)
  from fail have "fst (authenticate server_401 credentials0 empty_world) =
     Inl (Error ''Authentication failed! status: 401'')
   \<and> sent (snd (authenticate server_401 credentials0 empty_world)) = [auth_POST credentials0]"
    using C2_authenticate [of server_401 credentials0 empty_world ?r]
    by (simp add: decimal_examples empty_world_def)
  moreover from one have "\<exists>v. fst (authenticate auth_server credentials0 empty_world) = Inr v
         \<and> member v ''token_type'' = Inr (JString ''Bearer'')
         \<and> member v ''access_token'' = Inr (JString ''first'')"
    using C2_authenticate [of auth_server credentials0 empty_world "?a ''first''" _
        "?kvs ''first''" "JString ''first''"]
    by blast
  moreover from two have "\<exists>v. fst (authenticate auth_server credentials0
                 (snd (authenticate auth_server credentials0 empty_world))) = Inr v
         \<and> member v ''access_token'' = Inr (JString ''second'')"
    using C2_authenticate [of auth_server credentials0 empty_world _ _ _ _
        "?a ''second''" "JObject (?kvs ''second'')"]
    by simp
  ultimately show ?thesis by blast
qed

text \<open>
  Claim C3. When the logs endpoint answers with a non-success status, the UI-bound
  \<open>logToServer\<close> fails with the error whose text carries the status, and the standalone
  one with the error whose text carries the status and the response text. In that
  case \<open>sendLog\<close> puts an entry with status \<open>error\<close>, not \<open>success\<close>, at the head of the
  retained list.
\<close>

theorem C3_delivery_failure:
  "(net (sent w) (logs_POST token
        \<lparr>stack = ''frontend'', LogRequest.level = toLowerCase lvl,
           LogRequest.package = toLowerCase pkg, LogRequest.message = msg\<rparr>) = Resolved r
      \<and> \<not> ok r \<longrightarrow>
      fst (logToServer net token lvl pkg msg w) =
        Inl (Error (''HTTP error! status: '' @ decimal (http_response.status r)))
      \<and> (token \<noteq> [] \<longrightarrow>
           logs (fst (sendLog net clk (Some token) lvl pkg msg (ui, w))) =
             \<lparr>id' = JString (''error-'' @ decimal (now clk)),
                timestamp = toLocaleTimeString clk, level = lvl, package = pkg,
                message = msg, status = ''error''\<rparr> # take 9 (logs ui)))
   \<and> (t \<noteq> [] \<and> m \<noteq> []
      \<and> net (sent w) (logs_POST t
        \<lparr>stack = ''frontend'', LogRequest.level = toLowerCase lvl,
           LogRequest.package = toLowerCase pkg, LogRequest.message = trim m\<rparr>) = Resolved r'
      \<and> \<not> ok r' \<longrightarrow>
      fst (logToServer_standalone net (JString t) lvl pkg (JString m) w) =
        Inl (Error (''HTTP '' @ decimal (http_response.status r') @ '': '' @ body_text r')))"
proof -
  have ui: "fst (logToServer net token lvl pkg msg w) =
        Inl (Error (''HTTP error! status: '' @ decimal (http_response.status r)))"
    if "net (sent w) (logs_POST token
        \<lparr>stack = ''frontend'', LogRequest.level = toLowerCase lvl,
           LogRequest.package = toLowerCase pkg, LogRequest.message = msg\<rparr>) = Resolved r"
      and "\<not> ok r"
    using that by (simp add: logToServer_fst logToServer_try_fst)
  have entry: "logs (fst (sendLog net clk (Some token) lvl pkg msg (ui, w))) =
             \<lparr>id' = JString (''error-'' @ decimal (now clk)),
                timestamp = toLocaleTimeString clk, level = lvl, package = pkg,
                message = msg, status = ''error''\<rparr> # take 9 (logs ui)"
    if "token \<noteq> []" and "fst (logToServer net token lvl pkg msg w) = Inl e" for e
    by (simp add: sendLog_failure [OF that])
  have sa: "fst (logToServer_standalone net (JString t) lvl pkg (JString m) w) =
        Inl (Error (''HTTP '' @ decimal (http_response.status r') @ '': '' @ body_text r'))"
    if "t \<noteq> []" "m \<noteq> []"
      and "net (sent w) (logs_POST t
        \<lparr>stack = ''frontend'', LogRequest.level = toLowerCase lvl,
           LogRequest.package = toLowerCase pkg, LogRequest.message = trim m\<rparr>) = Resolved r'"
      and "\<not> ok r'"
    using that by (simp add: logToServer_standalone_valid_fst logToServer_standalone_try_fst)
  from ui entry sa show ?thesis by blast
qed

text \<open>
  With a remote side that answers 401 \<open>Unauthorized\<close>.
\<close>

theorem C3_delivery_failure_witness:
  "fst (logToServer server_401 ''tok'' ''warn'' ''api'' ''slow'' empty_world) =
     Inl (Error ''HTTP error! status: 401'')
   \<and> logs (fst (sendLog server_401 \<lparr>now = 17, toLocaleTimeString = ''10:00:00''\<rparr>
        (Some ''tok'') ''warn'' ''api'' ''slow'' (initial_ui, empty_world))) =
     [\<lparr>id' = JString ''error-17'', timestamp = ''10:00:00'', level = ''warn'',
        package = ''api'', message = ''slow'', status = ''error''\<rparr>]
   \<and> fst (logToServer_standalone server_401 (JString ''tok'') ''warn'' ''api''
        (JString ''slow'') empty_world) = Inl (Error ''HTTP 401: Unauthorized'')"
proof -
  let ?r = "\<lparr>http_response.status = 401, body_text = ''Unauthorized'', body_json = None\<rparr>"
  have r: "\<not> ok ?r" by (simp add: ok_def)
  have d: "decimal 17 = ''17''" by (simp add: decimal.simps char_of_def bit_iff_odd)
  have "trim ''slow'' = ''slow''" by (simp add: trim_def is_white_space_def)
  then show ?thesis
    using r C3_delivery_failure [of server_401 empty_world "''tok''" "''warn''" "''api''"
        "''slow''" ?r "\<lparr>now = 17, toLocaleTimeString = ''10:00:00''\<rparr>" initial_ui
        "''tok''" "''slow''" ?r]
    by (simp add: server_401_def decimal_examples d initial_ui_def)
qed

text \<open>
  Claim C4. The standalone \<open>logToServer\<close> fails with one of its two validation errors,
  and leaves the world as it was (no request), whenever the token or the message is
  not a non-empty string. When both are, it sends the request whatever the level and
  the package are. The UI-bound \<open>logToServer\<close> sends its request for every token,
  level, package and message, the empty ones included.
\<close>

theorem C4_local_validation:
  "(\<not> nonempty_string tok \<or> \<not> nonempty_string m \<longrightarrow>
      logToServer_standalone net tok lvl pkg m w =
        (Inl (Error ''Valid bearer token is required''), w)
      \<or> logToServer_standalone net tok lvl pkg m w =
        (Inl (Error ''Log message is required''), w))
   \<and> (nonempty_string tok \<and> nonempty_string m \<longrightarrow>
      sent (snd (logToServer_standalone net tok lvl pkg m w)) =
        sent w @ [logs_POST (the_string tok)
          \<lparr>stack = ''frontend'', LogRequest.level = toLowerCase lvl,
             LogRequest.package = toLowerCase pkg, LogRequest.message = trim (the_string m)\<rparr>])
   \<and> sent (snd (logToServer net token lvl pkg msg w)) =
        sent w @ [logs_POST token
          \<lparr>stack = ''frontend'', LogRequest.level = toLowerCase lvl,
             LogRequest.package = toLowerCase pkg, LogRequest.message = msg\<rparr>]"
proof -
  have "logToServer_standalone net tok lvl pkg m w =
        (Inl (Error ''Valid bearer token is required''), w)
      \<or> logToServer_standalone net tok lvl pkg m w =
        (Inl (Error ''Log message is required''), w)"
    if "\<not> nonempty_string tok \<or> \<not> nonempty_string m"
    using logToServer_standalone_invalid [OF that, of net lvl pkg w]
    by (simp split: if_splits)
  moreover have "sent (snd (logToServer_standalone net tok lvl pkg m w)) =
        sent w @ [logs_POST (the_string tok)
          \<lparr>stack = ''frontend'', LogRequest.level = toLowerCase lvl,
             LogRequest.package = toLowerCase pkg, LogRequest.message = trim (the_string m)\<rparr>]"
    if "nonempty_string tok \<and> nonempty_string m"
  proof -
    from that obtain t s where "tok = JString t" "t \<noteq> []" "m = JString s" "s \<noteq> []"
      by (meson nonempty_stringE)
    then show ?thesis by (simp add: logToServer_standalone_valid_sent)
  qed
  ultimately show ?thesis by (simp add: logToServer_sent)
qed

text \<open>
  An empty or \<open>null\<close> token and an empty or numeric message are refused locally; the
  level \<open>verbose\<close> and an empty package are not; the UI-bound sender posts an empty
  token and an empty message.
\<close>

theorem C4_local_validation_witness:
  "logToServer_standalone server_200 (JString []) ''info'' ''api'' (JString ''m'') empty_world =
     (Inl (Error ''Valid bearer token is required''), empty_world)
   \<and> logToServer_standalone server_200 JNull ''info'' ''api'' (JString ''m'') empty_world =
     (Inl (Error ''Valid bearer token is required''), empty_world)
   \<and> logToServer_standalone server_200 (JString ''tok'') ''info'' ''api'' (JString []) empty_world =
     (Inl (Error ''Log message is required''), empty_world)
   \<and> logToServer_standalone server_200 (JString ''tok'') ''info'' ''api'' (JNumber 7) empty_world =
     (Inl (Error ''Log message is required''), empty_world)
   \<and> sent (snd (logToServer_standalone server_200 (JString ''tok'') ''verbose'' [] (JString ''m'')
        empty_world)) =
     [logs_POST ''tok'' \<lparr>stack = ''frontend'', LogRequest.level = ''verbose'',
        LogRequest.package = [], LogRequest.message = ''m''\<rparr>]
   \<and> sent (snd (logToServer server_200 [] ''info'' ''api'' [] empty_world)) =
     [logs_POST [] \<lparr>stack = ''frontend'', LogRequest.level = ''info'',
        LogRequest.package = ''api'', LogRequest.message = []\<rparr>]"
proof -
  have l: "toLowerCase ''verbose'' = ''verbose''" "toLowerCase ''info'' = ''info''"
    "toLowerCase ''api'' = ''api''" "toLowerCase [] = []"
    by (simp_all add: toLowerCase_def lower_char_def)
  have t: "trim ''m'' = ''m''" by (simp add: trim_def is_white_space_def)
  have v: "logToServer_standalone server_200 (JString []) ''info'' ''api'' (JString ''m'')
        empty_world \<noteq> (Inl (Error ''Log message is required''), empty_world)"
    "logToServer_standalone server_200 JNull ''info'' ''api'' (JString ''m'')
        empty_world \<noteq> (Inl (Error ''Log message is required''), empty_world)"
    "logToServer_standalone server_200 (JString ''tok'') ''info'' ''api'' (JString [])
        empty_world \<noteq> (Inl (Error ''Valid bearer token is required''), empty_world)"
    "logToServer_standalone server_200 (JString ''tok'') ''info'' ''api'' (JNumber 7)
        empty_world \<noteq> (Inl (Error ''Valid bearer token is required''), empty_world)"
    by (simp_all add: logToServer_standalone_def)
  show ?thesis
    using v
      C4_local_validation [of "JString []" "JString ''m''" server_200 "''info''" "''api''"
        empty_world "[]" "[]"]
      C4_local_validation [of JNull "JString ''m''" server_200 "''info''" "''api''"
        empty_world "[]" "[]"]
      C4_local_validation [of "JString ''tok''" "JString []" server_200 "''info''" "''api''"
        empty_world "[]" "[]"]
      C4_local_validation [of "JString ''tok''" "JNumber 7" server_200 "''info''" "''api''"
        empty_world "[]" "[]"]
      C4_local_validation [of "JString ''tok''" "JString ''m''" server_200 "''verbose''" "[]"
        empty_world "[]" "[]"]
    by (simp add: l t empty_world_def)
qed

text \<open>
  Claim C5. Each of the five functions that \<open>createLogger\<close> returns is \<open>logToServer\<close> with
  the token and that level filled in: same result and same effect on the world, for
  every package and message, in both modules.
\<close>

theorem C5_createLogger:
  "debug (createLogger net token) pkg msg w = logToServer net token ''debug'' pkg msg w
   \<and> info (createLogger net token) pkg msg w = logToServer net token ''info'' pkg msg w
   \<and> warn (createLogger net token) pkg msg w = logToServer net token ''warn'' pkg msg w
   \<and> error (createLogger net token) pkg msg w = logToServer net token ''error'' pkg msg w
   \<and> fatal (createLogger net token) pkg msg w = logToServer net token ''fatal'' pkg msg w
   \<and> debug (createLogger_standalone net tok) pkg m w =
       logToServer_standalone net tok ''debug'' pkg m w
   \<and> info (createLogger_standalone net tok) pkg m w =
       logToServer_standalone net tok ''info'' pkg m w
   \<and> warn (createLogger_standalone net tok) pkg m w =
       logToServer_standalone net tok ''warn'' pkg m w
   \<and> error (createLogger_standalone net tok) pkg m w =
       logToServer_standalone net tok ''error'' pkg m w
   \<and> fatal (createLogger_standalone net tok) pkg m w =
       logToServer_standalone net tok ''fatal'' pkg m w"
  by (simp add: createLogger_def createLogger_standalone_def)

text \<open>
  \<open>warn\<close> posts a record of level \<open>warn\<close>.
\<close>

theorem C5_createLogger_witness:
  "sent (snd (warn (createLogger server_200 ''tok'') ''api'' ''msg'' empty_world)) =
     [logs_POST ''tok'' \<lparr>stack = ''frontend'', LogRequest.level = ''warn'',
        LogRequest.package = ''api'', LogRequest.message = ''msg''\<rparr>]
   \<and> warn (createLogger_standalone server_200 (JString ''tok'')) ''api'' (JString ''msg'')
        empty_world =
     logToServer_standalone server_200 (JString ''tok'') ''warn'' ''api'' (JString ''msg'')
        empty_world"
proof -
  have "toLowerCase ''warn'' = ''warn''" "toLowerCase ''api'' = ''api''"
    by (simp_all add: toLowerCase_def lower_char_def)
  then show ?thesis
    using C5_createLogger [of server_200 "''tok''" "''api''" "''msg''" empty_world
        "JString ''tok''" "JString ''msg''"]
    by (simp add: logToServer_sent empty_world_def)
qed

text \<open>
  Claim C6. Whenever \<open>logToServer\<close> returns, what it returns is the JSON body of a 2xx
  response to its request, unchanged; and when the endpoint answers 2xx with a JSON
  body that has a \<open>logID\<close>, the call returns and the \<open>logID\<close> of the returned value is
  that one. This holds in both modules (in the standalone one for a token and message
  that pass its test).
\<close>

theorem C6_logID_round_trip:
  "(fst (logToServer net token lvl pkg msg w) = Inr ack \<longrightarrow>
      (\<exists>r. net (sent w) (logs_POST token
               \<lparr>stack = ''frontend'', LogRequest.level = toLowerCase lvl,
                  LogRequest.package = toLowerCase pkg, LogRequest.message = msg\<rparr>) = Resolved r
           \<and> ok r \<and> body_json r = Some ack))
   \<and> (net (sent w) (logs_POST token
               \<lparr>stack = ''frontend'', LogRequest.level = toLowerCase lvl,
                  LogRequest.package = toLowerCase pkg, LogRequest.message = msg\<rparr>) = Resolved r
       \<and> ok r \<and> body_json r = Some j \<and> member j ''logID'' = Inr logID \<longrightarrow>
      (\<exists>ack. fst (logToServer net token lvl pkg msg w) = Inr ack
           \<and> member ack ''logID'' = Inr logID))
   \<and> (fst (logToServer_standalone net tok lvl pkg m w) = Inr ack' \<longrightarrow>
      (\<exists>r. net (sent w) (logs_POST (the_string tok)
               \<lparr>stack = ''frontend'', LogRequest.level = toLowerCase lvl,
                  LogRequest.package = toLowerCase pkg,
                  LogRequest.message = trim (the_string m)\<rparr>) = Resolved r
           \<and> ok r \<and> body_json r = Some ack'))
   \<and> (nonempty_string tok \<and> nonempty_string m
       \<and> net (sent w) (logs_POST (the_string tok)
               \<lparr>stack = ''frontend'', LogRequest.level = toLowerCase lvl,
                  LogRequest.package = toLowerCase pkg,
                  LogRequest.message = trim (the_string m)\<rparr>) = Resolved r'
       \<and> ok r' \<and> body_json r' = Some j' \<and> member j' ''logID'' = Inr logID' \<longrightarrow>
      (\<exists>ack. fst (logToServer_standalone net tok lvl pkg m w) = Inr ack
           \<and> member ack ''logID'' = Inr logID'))"
proof -
  have a: "\<exists>r. net (sent w) (logs_POST token
               \<lparr>stack = ''frontend'', LogRequest.level = toLowerCase lvl,
                  LogRequest.package = toLowerCase pkg, LogRequest.message = msg\<rparr>) = Resolved r
           \<and> ok r \<and> body_json r = Some ack"
    if "fst (logToServer net token lvl pkg msg w) = Inr ack"
    using that
    by (auto simp add: logToServer_fst logToServer_try_fst
          split: fetch_outcome.splits if_splits option.splits sum.splits)
  have b: "\<exists>ack. fst (logToServer net token lvl pkg msg w) = Inr ack
           \<and> member ack ''logID'' = Inr logID"
    if "net (sent w) (logs_POST token
               \<lparr>stack = ''frontend'', LogRequest.level = toLowerCase lvl,
                  LogRequest.package = toLowerCase pkg, LogRequest.message = msg\<rparr>) = Resolved r"
      "ok r" "body_json r = Some j" "member j ''logID'' = Inr logID"
    using that by (simp add: logToServer_fst logToServer_try_fst)
  have c: "\<exists>r. net (sent w) (logs_POST (the_string tok)
               \<lparr>stack = ''frontend'', LogRequest.level = toLowerCase lvl,
                  LogRequest.package = toLowerCase pkg,
                  LogRequest.message = trim (the_string m)\<rparr>) = Resolved r
           \<and> ok r \<and> body_json r = Some ack'"
    if ret: "fst (logToServer_standalone net tok lvl pkg m w) = Inr ack'"
  proof (cases "nonempty_string tok \<and> nonempty_string m")
    case True
    then obtain t s where "tok = JString t" "t \<noteq> []" "m = JString s" "s \<noteq> []"
      by (meson nonempty_stringE)
    with ret show ?thesis
      by (auto simp add: logToServer_standalone_valid_fst logToServer_standalone_try_fst
          split: fetch_outcome.splits if_splits option.splits sum.splits)
  next
    case False
    with ret logToServer_standalone_invalid [of tok m net lvl pkg w] show ?thesis by simp
  qed
  have d: "\<exists>ack. fst (logToServer_standalone net tok lvl pkg m w) = Inr ack
           \<and> member ack ''logID'' = Inr logID'"
    if v: "nonempty_string tok \<and> nonempty_string m"
      and "net (sent w) (logs_POST (the_string tok)
               \<lparr>stack = ''frontend'', LogRequest.level = toLowerCase lvl,
                  LogRequest.package = toLowerCase pkg,
                  LogRequest.message = trim (the_string m)\<rparr>) = Resolved r'"
      "ok r'" "body_json r' = Some j'" "member j' ''logID'' = Inr logID'"
  proof -
    from v obtain t s where "tok = JString t" "t \<noteq> []" "m = JString s" "s \<noteq> []"
      by (meson nonempty_stringE)
    with that(2-) show ?thesis
      by (simp add: logToServer_standalone_valid_fst logToServer_standalone_try_fst)
  qed
  from a b c d show ?thesis by blast
qed

text \<open>
  The identifier \<open>a1b2\<close> comes back as \<open>a1b2\<close>.
\<close>

theorem C6_logID_round_trip_witness:
  "(\<exists>ack. fst (logToServer server_200 ''tok'' ''info'' ''api'' ''m'' empty_world) = Inr ack
        \<and> member ack ''logID'' = Inr (JString ''a1b2''))
   \<and> (\<exists>ack. fst (logToServer_standalone server_200 (JString ''tok'') ''info'' ''api''
                   (JString ''m'') empty_world) = Inr ack
        \<and> member ack ''logID'' = Inr (JString ''a1b2''))"
proof -
  let ?j = "JObject [(''logID'', JString ''a1b2''), (''message'', JString ''log created'')]"
  let ?r = "\<lparr>http_response.status = 200, body_text = [], body_json = Some ?j\<rparr>"
  have h: "server_200 (sent empty_world) req = Resolved ?r \<and> ok ?r \<and> body_json ?r = Some ?j
      \<and> member ?j ''logID'' = Inr (JString ''a1b2'')" for req
    by (simp add: server_200_def ok_def)
  have v: "nonempty_string (JString ''tok'') \<and> nonempty_string (JString ''m'')" by simp
  from h v show ?thesis
    using C6_logID_round_trip [of server_200 "''tok''" "''info''" "''api''" "''m''" empty_world
        _ ?r ?j "JString ''a1b2''" "JString ''tok''" "JString ''m''" _ ?r ?j "JString ''a1b2''"]
    by blast
qed

text \<open>
  Claim C7, as stated, fails on a message of white space only: it is not empty, so
  the standalone \<open>logToServer\<close> posts it with an empty message text, while its trimmed
  form is the empty string, which is refused before any request.
\<close>

theorem C7_trim_counterexample:
  "map body (sent (snd (logToServer_standalone server_200 (JString ''tok'') ''info'' ''api''
                (JString ''  '') empty_world))) =
     [LogRequest_body \<lparr>stack = ''frontend'', LogRequest.level = ''info'',
        LogRequest.package = ''api'', LogRequest.message = []\<rparr>]
   \<and> sent (snd (logToServer_standalone server_200 (JString ''tok'') ''info'' ''api''
                (JString (trim ''  '')) empty_world)) = []"
proof -
  have l: "toLowerCase ''info'' = ''info''" "toLowerCase ''api'' = ''api''"
    by (simp_all add: toLowerCase_def lower_char_def)
  have "map body (sent (snd (logToServer_standalone server_200 (JString ''tok'') ''info'' ''api''
                (JString ''  '') empty_world))) =
     [LogRequest_body \<lparr>stack = ''frontend'', LogRequest.level = ''info'',
        LogRequest.package = ''api'', LogRequest.message = []\<rparr>]"
    by (simp add: logToServer_standalone_valid_sent l trim_examples empty_world_def
          logs_POST_def)
  moreover have "logToServer_standalone server_200 (JString ''tok'') ''info'' ''api''
                (JString (trim ''  '')) empty_world =
      (Inl (Error ''Log message is required''), empty_world)"
    by (simp add: logToServer_standalone_def trim_examples)
  ultimately show ?thesis by (simp add: empty_world_def)
qed

text \<open>
  Claim C7, amended. For every message whose trimmed form is not empty, the standalone
  \<open>logToServer\<close> behaves on the message exactly as on its trimmed form, whatever the
  token is; with a token that passes the test, the request posted for the message and
  the request posted for its trimmed form both carry the trimmed form as message text.
\<close>

theorem C7_trim_normalises:
  "(trim m \<noteq> [] \<longrightarrow>
     logToServer_standalone net tok lvl pkg (JString m) w =
       logToServer_standalone net tok lvl pkg (JString (trim m)) w)
   \<and> (t \<noteq> [] \<and> trim m \<noteq> [] \<longrightarrow>
     sent (snd (logToServer_standalone net (JString t) lvl pkg (JString m) w)) =
       sent w @ [\<lparr>url = LOGS_ENDPOINT, method' = ''POST'',
          headers = [(''Content-Type'', ''application/json''),
                     (''Authorization'', ''Bearer '' @ t)],
          body = LogRequest_body
            \<lparr>stack = ''frontend'', LogRequest.level = toLowerCase lvl,
               LogRequest.package = toLowerCase pkg, LogRequest.message = trim m\<rparr>\<rparr>]
     \<and> sent (snd (logToServer_standalone net (JString t) lvl pkg (JString (trim m)) w)) =
       sent w @ [\<lparr>url = LOGS_ENDPOINT, method' = ''POST'',
          headers = [(''Content-Type'', ''application/json''),
                     (''Authorization'', ''Bearer '' @ t)],
          body = LogRequest_body
            \<lparr>stack = ''frontend'', LogRequest.level = toLowerCase lvl,
               LogRequest.package = toLowerCase pkg, LogRequest.message = trim m\<rparr>\<rparr>])"
proof -
  have eq: "logToServer_standalone net tok lvl pkg (JString m) w =
       logToServer_standalone net tok lvl pkg (JString (trim m)) w"
    if "trim m \<noteq> []"
  proof -
    from that have "m \<noteq> []" by (rule trim_nonempty)
    with that show ?thesis
      by (simp add: logToServer_standalone_def trim_idem)
  qed
  have snt: "sent (snd (logToServer_standalone net (JString t) lvl pkg (JString s) w)) =
       sent w @ [\<lparr>url = LOGS_ENDPOINT, method' = ''POST'',
          headers = [(''Content-Type'', ''application/json''),
                     (''Authorization'', ''Bearer '' @ t)],
          body = LogRequest_body
            \<lparr>stack = ''frontend'', LogRequest.level = toLowerCase lvl,
               LogRequest.package = toLowerCase pkg, LogRequest.message = trim s\<rparr>\<rparr>]"
    if "t \<noteq> []" "s \<noteq> []" for s
    using that by (simp add: logToServer_standalone_valid_sent logs_POST_def)
  have two: "sent (snd (logToServer_standalone net (JString t) lvl pkg (JString m) w)) =
       sent w @ [\<lparr>url = LOGS_ENDPOINT, method' = ''POST'',
          headers = [(''Content-Type'', ''application/json''),
                     (''Authorization'', ''Bearer '' @ t)],
          body = LogRequest_body
            \<lparr>stack = ''frontend'', LogRequest.level = toLowerCase lvl,
               LogRequest.package = toLowerCase pkg, LogRequest.message = trim m\<rparr>\<rparr>]
     \<and> sent (snd (logToServer_standalone net (JString t) lvl pkg (JString (trim m)) w)) =
       sent w @ [\<lparr>url = LOGS_ENDPOINT, method' = ''POST'',
          headers = [(''Content-Type'', ''application/json''),
                     (''Authorization'', ''Bearer '' @ t)],
          body = LogRequest_body
            \<lparr>stack = ''frontend'', LogRequest.level = toLowerCase lvl,
               LogRequest.package = toLowerCase pkg, LogRequest.message = trim m\<rparr>\<rparr>]"
    if "t \<noteq> []" "trim m \<noteq> []"
    using snt [of m] snt [of "trim m"] that trim_nonempty [of m] by (simp add: trim_idem)
  from eq two show ?thesis by blast
qed

text \<open>
  \<open>hello\<close> with two spaces on each side and \<open>hello\<close> are both posted as \<open>hello\<close>.
\<close>

theorem C7_trim_normalises_witness:
  "logToServer_standalone server_200 (JString ''tok'') ''info'' ''api'' (JString ''  hello  '')
       empty_world =
     logToServer_standalone server_200 (JString ''tok'') ''info'' ''api'' (JString ''hello'')
       empty_world
   \<and> map body (sent (snd (logToServer_standalone server_200 (JString ''tok'') ''info'' ''api''
        (JString ''  hello  '') empty_world))) =
     [LogRequest_body \<lparr>stack = ''frontend'', LogRequest.level = ''info'',
        LogRequest.package = ''api'', LogRequest.message = ''hello''\<rparr>]
   \<and> map body (sent (snd (logToServer_standalone server_200 (JString ''tok'') ''info'' ''api''
        (JString ''hello'') empty_world))) =
     [LogRequest_body \<lparr>stack = ''frontend'', LogRequest.level = ''info'',
        LogRequest.package = ''api'', LogRequest.message = ''hello''\<rparr>]"
proof -
  have l: "toLowerCase ''info'' = ''info''" "toLowerCase ''api'' = ''api''"
    by (simp_all add: toLowerCase_def lower_char_def)
  have h: "''tok'' \<noteq> [] \<and> trim ''  hello  '' \<noteq> []" by (simp add: trim_examples)
  from h show ?thesis
    using C7_trim_normalises [of "''  hello  ''" server_200 "JString ''tok''" "''info''"
        "''api''" empty_world "''tok''"]
    by (auto simp add: trim_examples l empty_world_def)
qed

text \<open>
  Claim C8, as stated, fails on an empty message: the UI-bound \<open>logToServer\<close> posts it
  as it is, and the record on the wire has an empty message.
\<close>

theorem C8_invariant_counterexample:
  "map body (sent (snd (logToServer server_200 ''tok'' ''info'' ''api'' [] empty_world))) =
     [LogRequest_body \<lparr>stack = ''frontend'', LogRequest.level = ''info'',
        LogRequest.package = ''api'', LogRequest.message = []\<rparr>]
   \<and> \<not> Log_Record_invariant \<lparr>stack = ''frontend'', LogRequest.level = ''info'',
        LogRequest.package = ''api'', LogRequest.message = []\<rparr>"
proof -
  have "toLowerCase ''info'' = ''info''" "toLowerCase ''api'' = ''api''"
    by (simp_all add: toLowerCase_def lower_char_def)
  then show ?thesis
    by (simp add: logToServer_sent empty_world_def Log_Record_invariant_def logs_POST_def)
qed

text \<open>
  Claim C8, amended. In both modules the record in the body of the request has stack
  \<open>frontend\<close>, and its severity and category are the lower-case forms of the level and
  package given: a member of the enumeration goes out unchanged, and each field is in
  its enumeration whenever the input is a member up to letter case. The UI-bound sender
  sends the message as given, so it is not empty whenever the input is not; the
  standalone sender sends the trimmed message, which is not empty whenever the trimmed
  form is not. With all three conditions the record satisfies the invariant.
\<close>

theorem C8_outbound_record:
  "(\<exists>r. sent (snd (logToServer net token lvl pkg msg w)) =
          sent w @ [\<lparr>url = LOGS_ENDPOINT, method' = ''POST'',
             headers = [(''Content-Type'', ''application/json''),
                        (''Authorization'', ''Bearer '' @ token)],
             body = LogRequest_body r\<rparr>]
        \<and> stack r = ''frontend''
        \<and> LogRequest.level r = toLowerCase lvl \<and> LogRequest.package r = toLowerCase pkg
        \<and> LogRequest.message r = msg
        \<and> (lvl \<in> set LogLevel \<longrightarrow> LogRequest.level r = lvl)
        \<and> (pkg \<in> set FrontendPackage \<longrightarrow> LogRequest.package r = pkg)
        \<and> (toLowerCase lvl \<in> set LogLevel \<longrightarrow> LogRequest.level r \<in> set LogLevel)
        \<and> (toLowerCase pkg \<in> set FrontendPackage \<longrightarrow>
             LogRequest.package r \<in> set FrontendPackage)
        \<and> (msg \<noteq> [] \<longrightarrow> LogRequest.message r \<noteq> [])
        \<and> (toLowerCase lvl \<in> set LogLevel \<and> toLowerCase pkg \<in> set FrontendPackage
             \<and> msg \<noteq> [] \<longrightarrow> Log_Record_invariant r))
   \<and> (t \<noteq> [] \<and> m \<noteq> [] \<longrightarrow>
       (\<exists>r. sent (snd (logToServer_standalone net (JString t) lvl pkg (JString m) w)) =
              sent w @ [\<lparr>url = LOGS_ENDPOINT, method' = ''POST'',
                 headers = [(''Content-Type'', ''application/json''),
                            (''Authorization'', ''Bearer '' @ t)],
                 body = LogRequest_body r\<rparr>]
          \<and> stack r = ''frontend''
          \<and> LogRequest.level r = toLowerCase lvl \<and> LogRequest.package r = toLowerCase pkg
          \<and> LogRequest.message r = trim m
          \<and> (lvl \<in> set LogLevel \<longrightarrow> LogRequest.level r = lvl)
          \<and> (pkg \<in> set FrontendPackage \<longrightarrow> LogRequest.package r = pkg)
          \<and> (toLowerCase lvl \<in> set LogLevel \<longrightarrow> LogRequest.level r \<in> set LogLevel)
          \<and> (toLowerCase pkg \<in> set FrontendPackage \<longrightarrow>
               LogRequest.package r \<in> set FrontendPackage)
          \<and> (trim m \<noteq> [] \<longrightarrow> LogRequest.message r \<noteq> [])
          \<and> (toLowerCase lvl \<in> set LogLevel \<and> toLowerCase pkg \<in> set FrontendPackage
               \<and> trim m \<noteq> [] \<longrightarrow> Log_Record_invariant r)))"
proof -
  have ui: "\<exists>r. sent (snd (logToServer net token lvl pkg msg w)) =
          sent w @ [\<lparr>url = LOGS_ENDPOINT, method' = ''POST'',
             headers = [(''Content-Type'', ''application/json''),
                        (''Authorization'', ''Bearer '' @ token)],
             body = LogRequest_body r\<rparr>]
        \<and> stack r = ''frontend''
        \<and> LogRequest.level r = toLowerCase lvl \<and> LogRequest.package r = toLowerCase pkg
        \<and> LogRequest.message r = msg
        \<and> (lvl \<in> set LogLevel \<longrightarrow> LogRequest.level r = lvl)
        \<and> (pkg \<in> set FrontendPackage \<longrightarrow> LogRequest.package r = pkg)
        \<and> (toLowerCase lvl \<in> set LogLevel \<longrightarrow> LogRequest.level r \<in> set LogLevel)
        \<and> (toLowerCase pkg \<in> set FrontendPackage \<longrightarrow>
             LogRequest.package r \<in> set FrontendPackage)
        \<and> (msg \<noteq> [] \<longrightarrow> LogRequest.message r \<noteq> [])
        \<and> (toLowerCase lvl \<in> set LogLevel \<and> toLowerCase pkg \<in> set FrontendPackage
             \<and> msg \<noteq> [] \<longrightarrow> Log_Record_invariant r)"
    by (rule exI [of _ "\<lparr>stack = ''frontend'', LogRequest.level = toLowerCase lvl,
           LogRequest.package = toLowerCase pkg, LogRequest.message = msg\<rparr>"])
       (simp add: logToServer_sent logs_POST_def Log_Record_invariant_def LogLevel_lower
          FrontendPackage_lower)
  have sa: "\<exists>r. sent (snd (logToServer_standalone net (JString t) lvl pkg (JString m) w)) =
              sent w @ [\<lparr>url = LOGS_ENDPOINT, method' = ''POST'',
                 headers = [(''Content-Type'', ''application/json''),
                            (''Authorization'', ''Bearer '' @ t)],
                 body = LogRequest_body r\<rparr>]
          \<and> stack r = ''frontend''
          \<and> LogRequest.level r = toLowerCase lvl \<and> LogRequest.package r = toLowerCase pkg
          \<and> LogRequest.message r = trim m
          \<and> (lvl \<in> set LogLevel \<longrightarrow> LogRequest.level r = lvl)
          \<and> (pkg \<in> set FrontendPackage \<longrightarrow> LogRequest.package r = pkg)
          \<and> (toLowerCase lvl \<in> set LogLevel \<longrightarrow> LogRequest.level r \<in> set LogLevel)
          \<and> (toLowerCase pkg \<in> set FrontendPackage \<longrightarrow>
               LogRequest.package r \<in> set FrontendPackage)
          \<and> (trim m \<noteq> [] \<longrightarrow> LogRequest.message r \<noteq> [])
          \<and> (toLowerCase lvl \<in> set LogLevel \<and> toLowerCase pkg \<in> set FrontendPackage
               \<and> trim m \<noteq> [] \<longrightarrow> Log_Record_invariant r)"
    if "t \<noteq> []" "m \<noteq> []"
    using that
    by (intro exI [of _ "\<lparr>stack = ''frontend'', LogRequest.level = toLowerCase lvl,
           LogRequest.package = toLowerCase pkg, LogRequest.message = trim m\<rparr>"])
       (simp add: logToServer_standalone_valid_sent logs_POST_def Log_Record_invariant_def
          LogLevel_lower FrontendPackage_lower)
  from ui sa show ?thesis by blast
qed

text \<open>
  \<open>ERROR\<close>, \<open>API\<close> and a message \<open>boom\<close> give a record that satisfies the invariant;
  \<open>warn\<close> and \<open>hook\<close> go out as they are; with the level \<open>verbose\<close> and the package
  \<open>db\<close> the message \<open>boom\<close> still goes out as given.
\<close>

theorem C8_outbound_record_witness:
  "map body (sent (snd (logToServer server_200 ''tok'' ''ERROR'' ''API'' ''boom'' empty_world))) =
     [LogRequest_body \<lparr>stack = ''frontend'', LogRequest.level = ''error'',
        LogRequest.package = ''api'', LogRequest.message = ''boom''\<rparr>]
   \<and> Log_Record_invariant \<lparr>stack = ''frontend'', LogRequest.level = ''error'',
        LogRequest.package = ''api'', LogRequest.message = ''boom''\<rparr>
   \<and> map body (sent (snd (logToServer_standalone server_200 (JString ''tok'') ''ERROR'' ''API''
                       (JString '' boom '') empty_world))) =
     [LogRequest_body \<lparr>stack = ''frontend'', LogRequest.level = ''error'',
        LogRequest.package = ''api'', LogRequest.message = ''boom''\<rparr>]
   \<and> map body (sent (snd (logToServer server_200 ''tok'' ''warn'' ''hook'' ''boom''
        empty_world))) =
     [LogRequest_body \<lparr>stack = ''frontend'', LogRequest.level = ''warn'',
        LogRequest.package = ''hook'', LogRequest.message = ''boom''\<rparr>]
   \<and> map body (sent (snd (logToServer server_200 ''tok'' ''verbose'' ''db'' ''boom''
        empty_world))) =
     [LogRequest_body \<lparr>stack = ''frontend'', LogRequest.level = ''verbose'',
        LogRequest.package = ''db'', LogRequest.message = ''boom''\<rparr>]"
proof -
  have h: "toLowerCase ''ERROR'' \<in> set LogLevel \<and> toLowerCase ''API'' \<in> set FrontendPackage
      \<and> ''boom'' \<noteq> []"
    by (simp add: lower_examples LogLevel_def FrontendPackage_def)
  have s: "''tok'' \<noteq> [] \<and> '' boom '' \<noteq> []" by simp
  have g: "''warn'' \<in> set LogLevel" "''hook'' \<in> set FrontendPackage"
    by (simp_all add: LogLevel_def FrontendPackage_def)
  have tr: "trim '' boom '' = ''boom''" by (simp add: trim_def is_white_space_def)
  have v: "toLowerCase ''verbose'' = ''verbose''" "toLowerCase ''db'' = ''db''"
    by (simp_all add: toLowerCase_def lower_char_def)
  note upper = C8_outbound_record [of server_200 "''tok''" "''ERROR''" "''API''" "''boom''"
        empty_world "''tok''" "'' boom ''"]
  note member = C8_outbound_record [of server_200 "''tok''" "''warn''" "''hook''" "''boom''"
        empty_world "''tok''" "'' boom ''"]
  note other = C8_outbound_record [of server_200 "''tok''" "''verbose''" "''db''" "''boom''"
        empty_world "''tok''" "'' boom ''"]
  from upper [THEN conjunct1] h obtain r where r:
    "map body (sent (snd (logToServer server_200 ''tok'' ''ERROR'' ''API'' ''boom''
        empty_world))) = [LogRequest_body r]"
    "stack r = ''frontend''" "LogRequest.level r = ''error''" "LogRequest.package r = ''api''"
    "LogRequest.message r = ''boom''" "Log_Record_invariant r"
    by (clarsimp simp add: lower_examples empty_world_def)
  from r(2-5) have "r = \<lparr>stack = ''frontend'', LogRequest.level = ''error'',
        LogRequest.package = ''api'', LogRequest.message = ''boom''\<rparr>"
    by (rule LogRequest_fields)
  with r(1,6) have a: "map body (sent (snd (logToServer server_200 ''tok'' ''ERROR'' ''API''
        ''boom'' empty_world))) =
     [LogRequest_body \<lparr>stack = ''frontend'', LogRequest.level = ''error'',
        LogRequest.package = ''api'', LogRequest.message = ''boom''\<rparr>]
   \<and> Log_Record_invariant \<lparr>stack = ''frontend'', LogRequest.level = ''error'',
        LogRequest.package = ''api'', LogRequest.message = ''boom''\<rparr>"
    by simp
  from upper [THEN conjunct2, THEN mp, OF s] obtain r' where r':
    "map body (sent (snd (logToServer_standalone server_200 (JString ''tok'') ''ERROR''
        ''API'' (JString '' boom '') empty_world))) = [LogRequest_body r']"
    "stack r' = ''frontend''" "LogRequest.level r' = ''error''"
    "LogRequest.package r' = ''api''" "LogRequest.message r' = ''boom''"
    by (clarsimp simp add: lower_examples empty_world_def tr)
  from r'(2-5) have "r' = \<lparr>stack = ''frontend'', LogRequest.level = ''error'',
        LogRequest.package = ''api'', LogRequest.message = ''boom''\<rparr>"
    by (rule LogRequest_fields)
  with r'(1) have b: "map body (sent (snd (logToServer_standalone server_200 (JString ''tok'')
        ''ERROR'' ''API'' (JString '' boom '') empty_world))) =
     [LogRequest_body \<lparr>stack = ''frontend'', LogRequest.level = ''error'',
        LogRequest.package = ''api'', LogRequest.message = ''boom''\<rparr>]"
    by simp
  from member [THEN conjunct1] g obtain q where q:
    "map body (sent (snd (logToServer server_200 ''tok'' ''warn'' ''hook'' ''boom''
        empty_world))) = [LogRequest_body q]"
    "stack q = ''frontend''" "LogRequest.level q = ''warn''" "LogRequest.package q = ''hook''"
    "LogRequest.message q = ''boom''"
    by (clarsimp simp add: empty_world_def)
  from q(2-5) have "q = \<lparr>stack = ''frontend'', LogRequest.level = ''warn'',
        LogRequest.package = ''hook'', LogRequest.message = ''boom''\<rparr>"
    by (rule LogRequest_fields)
  with q(1) have c: "map body (sent (snd (logToServer server_200 ''tok'' ''warn'' ''hook''
        ''boom'' empty_world))) =
     [LogRequest_body \<lparr>stack = ''frontend'', LogRequest.level = ''warn'',
        LogRequest.package = ''hook'', LogRequest.message = ''boom''\<rparr>]"
    by simp
  from other [THEN conjunct1] obtain p where p:
    "map body (sent (snd (logToServer server_200 ''tok'' ''verbose'' ''db'' ''boom''
        empty_world))) = [LogRequest_body p]"
    "stack p = ''frontend''" "LogRequest.level p = ''verbose''" "LogRequest.package p = ''db''"
    "LogRequest.message p = ''boom''"
    by (clarsimp simp add: empty_world_def v)
  from p(2-5) have "p = \<lparr>stack = ''frontend'', LogRequest.level = ''verbose'',
        LogRequest.package = ''db'', LogRequest.message = ''boom''\<rparr>"
    by (rule LogRequest_fields)
  with p(1) have d: "map body (sent (snd (logToServer server_200 ''tok'' ''verbose'' ''db''
        ''boom'' empty_world))) =
     [LogRequest_body \<lparr>stack = ''frontend'', LogRequest.level = ''verbose'',
        LogRequest.package = ''db'', LogRequest.message = ''boom''\<rparr>]"
    by simp
  from a b c d show ?thesis by (intro conjI) (erule conjunct1, erule conjunct2, assumption+)
qed

text \<open>
  Claim C9. Starting from the empty list, no sequence of \<open>sendLog\<close> calls makes the
  retained list longer than 10. A call with a token puts the entry of this call first,
  whether the request succeeded or failed, followed by the 9 most recent entries of the
  list before; when that list was full, this drops its last, oldest, entry.
\<close>

theorem C9_retained_list_cap:
  "length (logs (fst (sendLog_calls net calls (initial_ui, w)))) \<le> 10
   \<and> (token \<noteq> [] \<longrightarrow>
       (\<exists>e. logs (fst (sendLog net clk (Some token) lvl pkg msg (ui, w))) = e # take 9 (logs ui)
          \<and> LogEntry.level e = lvl \<and> LogEntry.package e = pkg \<and> LogEntry.message e = msg
          \<and> (status e = ''success'' \<or> status e = ''error'')))
   \<and> (token \<noteq> [] \<and> length (logs ui) = 10 \<longrightarrow>
       (\<exists>e. logs (fst (sendLog net clk (Some token) lvl pkg msg (ui, w))) = e # butlast (logs ui)))"
proof -
  have cap: "length (logs (fst (sendLog_calls net calls (initial_ui, w)))) \<le> 10"
    by (rule sendLog_calls_cap) (simp add: initial_ui_def)
  have evict: "take 9 (logs ui) = butlast (logs ui)" if "length (logs ui) = 10"
    using that by (simp add: butlast_conv_take)
  from cap evict sendLog_entry [of token net clk lvl pkg msg ui w] show ?thesis
    by auto
qed

text \<open>
  A failed call on a full list: the new entry comes first and the oldest entry,
  \<open>a\<close>, is gone.
\<close>

theorem C9_retained_list_cap_witness:
  "length (logs (fst (sendLog_calls server_401
       [(clock0, Some ''tok'', ''warn'', ''api'', ''slow''), (clock0, None, ''info'', ''page'', ''x'')]
       (initial_ui, empty_world)))) \<le> 10
   \<and> (\<exists>e. logs (fst (sendLog server_401 clock0 (Some ''tok'') ''warn'' ''api'' ''slow''
              (initial_ui\<lparr>logs := ten_logs\<rparr>, empty_world))) =
          e # map old_entry [''j'', ''i'', ''h'', ''g'', ''f'', ''e'', ''d'', ''c'', ''b'']
        \<and> LogEntry.level e = ''warn'' \<and> LogEntry.package e = ''api''
        \<and> LogEntry.message e = ''slow'')"
proof -
  have h: "''tok'' \<noteq> [] \<and> length (logs (initial_ui\<lparr>logs := ten_logs\<rparr>)) = 10"
    by (simp add: ten_logs_def)
  have t: "take 9 (logs (initial_ui\<lparr>logs := ten_logs\<rparr>)) =
      map old_entry [''j'', ''i'', ''h'', ''g'', ''f'', ''e'', ''d'', ''c'', ''b'']"
    by (simp add: ten_logs_def)
  from h t show ?thesis
    using C9_retained_list_cap [of server_401
        "[(clock0, Some ''tok'', ''warn'', ''api'', ''slow''), (clock0, None, ''info'', ''page'', ''x'')]"
        empty_world "''tok''" clock0 "''warn''" "''api''" "''slow''"
        "initial_ui\<lparr>logs := ten_logs\<rparr>"]
    by auto
qed

text \<open>
  Claim C10. With the token \<open>null\<close>, \<open>sendLog\<close> adds the notice to the toasts and
  changes nothing else: the retained list, the loading key, the requests sent and the
  console are as before. A call of \<open>logToServer\<close> would have changed the world, since
  it always sends a request.
\<close>

theorem C10_sendLog_without_token:
  "sendLog net clk None lvl pkg msg (ui, w) =
     (ui\<lparr>toasts := toasts ui @ [No_Authentication_Token]\<rparr>, w)
   \<and> snd (logToServer net token lvl pkg msg w) \<noteq> w"
proof -
  have "sent (snd (logToServer net token lvl pkg msg w)) \<noteq> sent w"
    by (simp add: logToServer_sent)
  then have "snd (logToServer net token lvl pkg msg w) \<noteq> w" by auto
  then show ?thesis by (simp add: sendLog_def)
qed

text \<open>
  From the initial state.
\<close>

theorem C10_sendLog_without_token_witness:
  "sendLog server_200 clock0 None ''info'' ''page'' ''ready'' (initial_ui, empty_world) =
     (\<lparr>logs = [], isLoading = None, toasts = [No_Authentication_Token]\<rparr>, empty_world)"
  using C10_sendLog_without_token [of server_200 clock0 "''info''" "''page''" "''ready''"
      initial_ui empty_world]
  by (simp add: initial_ui_def)

end
